theory Spec2Isabelle
  imports Complex_Main "HOL-Library.Multiset"
begin

section \<open>Data model\<close>

text \<open>
  The program is a script over pandas data frames. A cell of a frame is what
  \<^verbatim>\<open>read_csv\<close> leaves in it: a missing value, a text, a floating-point number or an
  integer. Floating-point numbers are idealised as reals (finite values, exact
  arithmetic). Row and column labels are cells as well, as in pandas, where a label is
  any hashable value: the column labels of the transposed table are the cells of the
  first column of the wide table.
\<close>

datatype cell = CNaN | CStr string | CFloat real | CInt int

datatype error = KeyError | IndexError | ValueError | AttributeError

record frame =
  index :: "cell list"
  columns :: "cell list"
  rows :: "cell list list"

definition frame_wf :: "frame \<Rightarrow> bool" where
  "frame_wf f \<longleftrightarrow>
     length (index f) = length (rows f) \<and>
     list_all (\<lambda>r. length r = length (columns f)) (rows f) \<and>
     distinct (columns f)"

fun is_str :: "cell \<Rightarrow> bool" where
  "is_str (CStr s) = True"
| "is_str c = False"

definition range_index :: "nat \<Rightarrow> cell list" where
  "range_index n = map (\<lambda>i. CInt (int i)) [0..<n]"

fun ascii_label :: "cell \<Rightarrow> bool" where
  "ascii_label (CStr s) = list_all (\<lambda>c. of_char c < (128::nat)) s"
| "ascii_label c = True"

text \<open>
  What \<^verbatim>\<open>pd.read_csv\<close> returns: a rectangular frame whose column labels are
  texts, made pairwise distinct by the reader, and whose row labels are 0, 1, 2, ...
  The model covers headers of ASCII text: Unicode has numeric characters beyond ASCII
  that \<^verbatim>\<open>str.isnumeric\<close> accepts and \<^verbatim>\<open>pd.to_numeric\<close> does not parse.
\<close>

definition raw_table :: "frame \<Rightarrow> bool" where
  "raw_table f \<longleftrightarrow>
     frame_wf f \<and> list_all is_str (columns f) \<and> list_all ascii_label (columns f) \<and>
     index f = range_index (length (rows f))"

section \<open>The frame operations the script calls\<close>

text \<open>\<^verbatim>\<open>df.iloc[:-n]\<close>: a Python slice; its stop is clamped at 0, nothing is raised.\<close>

definition iloc_drop_last :: "nat \<Rightarrow> frame \<Rightarrow> frame" where
  "iloc_drop_last n f =
     f\<lparr>index := take (length (index f) - n) (index f),
       rows := take (length (rows f) - n) (rows f)\<rparr>"

text \<open>\<^verbatim>\<open>df.iloc[1:]\<close>\<close>

definition iloc_from :: "nat \<Rightarrow> frame \<Rightarrow> frame" where
  "iloc_from n f = f\<lparr>index := drop n (index f), rows := drop n (rows f)\<rparr>"

text \<open>\<^verbatim>\<open>df.iloc[0]\<close>: the values of the first row; IndexError when there is none.\<close>

definition iloc_row0 :: "frame \<Rightarrow> error + cell list" where
  "iloc_row0 f = (case rows f of [] \<Rightarrow> Inl IndexError | r # _ \<Rightarrow> Inr r)"

text \<open>Selection of the entries of a list by a boolean mask of the same length.\<close>

definition select :: "bool list \<Rightarrow> 'a list \<Rightarrow> 'a list" where
  "select bs xs = map snd (filter fst (zip bs xs))"

text \<open>
  \<^verbatim>\<open>df.drop(columns=labels)\<close>: KeyError when a label is not a column; otherwise
  every column bearing one of the labels is removed.
\<close>

definition drop_columns :: "cell list \<Rightarrow> frame \<Rightarrow> error + frame" where
  "drop_columns labels f =
     (if list_ex (\<lambda>l. l \<notin> set (columns f)) labels then Inl KeyError
      else let keep = map (\<lambda>c. c \<notin> set labels) (columns f)
           in Inr (f\<lparr>columns := select keep (columns f),
                     rows := map (select keep) (rows f)\<rparr>))"

text \<open>\<^verbatim>\<open>s.split(' ')\<close>: the pieces between single spaces; never an empty list.\<close>

fun split_on :: "char \<Rightarrow> string \<Rightarrow> string list" where
  "split_on c [] = [[]]"
| "split_on c (x # xs) =
     (if x = c then [] # split_on c xs
      else (case split_on c xs of [] \<Rightarrow> [[x]] | p # ps \<Rightarrow> (x # p) # ps))"

text \<open>
  \<^verbatim>\<open>[col.split(' ')[0] for col in df.columns]\<close>, one label; a label that is
  not a text has no \<^verbatim>\<open>split\<close>.
\<close>

fun first_piece :: "cell \<Rightarrow> error + cell" where
  "first_piece (CStr s) =
     (case split_on (CHR '' '') s of [] \<Rightarrow> Inl IndexError | p # _ \<Rightarrow> Inr (CStr p))"
| "first_piece c = Inl AttributeError"

fun map_err :: "('a \<Rightarrow> error + 'b) \<Rightarrow> 'a list \<Rightarrow> error + 'b list" where
  "map_err g [] = Inr []"
| "map_err g (x # xs) =
     (case g x of Inl e \<Rightarrow> Inl e
      | Inr y \<Rightarrow> (case map_err g xs of Inl e \<Rightarrow> Inl e | Inr ys \<Rightarrow> Inr (y # ys)))"

text \<open>\<^verbatim>\<open>df.columns = labels\<close>: ValueError on a length mismatch.\<close>

definition set_columns :: "cell list \<Rightarrow> frame \<Rightarrow> error + frame" where
  "set_columns labels f =
     (if length labels = length (columns f) then Inr (f\<lparr>columns := labels\<rparr>)
      else Inl ValueError)"

text \<open>\<^verbatim>\<open>df.T\<close>\<close>

definition transpose_frame :: "frame \<Rightarrow> frame" where
  "transpose_frame f =
     \<lparr>index = columns f, columns = index f,
      rows = map (\<lambda>j. map (\<lambda>r. r ! j) (rows f)) [0..<length (columns f)]\<rparr>"

text \<open>
  \<^verbatim>\<open>str.isnumeric\<close> on ASCII text: not empty and digits only. Characters of HOL are
  bytes; numeric characters beyond ASCII are outside the model.
\<close>

definition is_digit :: "char \<Rightarrow> bool" where
  "is_digit c \<longleftrightarrow> c \<in> set ''0123456789''"

definition digit_val :: "char \<Rightarrow> nat" where
  "digit_val c = length (takeWhile (\<lambda>d. d \<noteq> c) ''0123456789'')"

definition isnumeric :: "string \<Rightarrow> bool" where
  "isnumeric s \<longleftrightarrow> s \<noteq> [] \<and> list_all is_digit s"

fun label_isnumeric :: "cell \<Rightarrow> bool" where
  "label_isnumeric (CStr s) = isnumeric s"
| "label_isnumeric c = False"

definition digits_to_nat :: "string \<Rightarrow> nat" where
  "digits_to_nat s = foldl (\<lambda>a c. 10 * a + digit_val c) 0 s"

text \<open>
  \<^verbatim>\<open>pd.to_numeric\<close> on one label: a text of digits becomes its integer when that
  fits 64 bits (the index is then of 64-bit integers, signed or unsigned); beyond, the
  call raises ValueError ("Integer out of range"). A number stays, any other text is a
  ValueError.
\<close>

fun to_numeric :: "cell \<Rightarrow> error + cell" where
  "to_numeric (CStr s) =
     (if isnumeric s
      then if int (digits_to_nat s) < 2 ^ 64 then Inr (CInt (int (digits_to_nat s)))
           else Inl ValueError
      else Inl ValueError)"
| "to_numeric c = Inr c"

text \<open>\<^verbatim>\<open>df[mask]\<close> with a boolean array: the rows where the mask is true.\<close>

definition bool_filter :: "bool list \<Rightarrow> frame \<Rightarrow> frame" where
  "bool_filter bs f = f\<lparr>index := select bs (index f), rows := select bs (rows f)\<rparr>"

text \<open>
  \<^verbatim>\<open>df[label] = values\<close>: every column bearing the label is overwritten; when there
  is none, a new last column is added.
\<close>

definition set_item :: "cell \<Rightarrow> cell list \<Rightarrow> frame \<Rightarrow> frame" where
  "set_item l vs f =
     (if l \<in> set (columns f)
      then f\<lparr>rows := map (\<lambda>(v, r). map (\<lambda>(c, x). if c = l then v else x) (zip (columns f) r))
                          (zip vs (rows f))\<rparr>
      else f\<lparr>columns := columns f @ [l], rows := map (\<lambda>(v, r). r @ [v]) (zip vs (rows f))\<rparr>)"

section \<open>Loader and reshaper\<close>

definition dropped_columns :: "cell list" where
  "dropped_columns = map CStr
     [''Country Code'', ''Series Code'',
      ''2001 [YR2001]'', ''2002 [YR2002]'',
      ''2003 [YR2003]'', ''2004 [YR2004]'',
      ''2005 [YR2005]'', ''2006 [YR2006]'',
      ''2007 [YR2007]'',
      ''2008 [YR2008]'', ''2009 [YR2009]'',
      ''2010 [YR2010]'', ''2011 [YR2011]'',
      ''2012 [YR2012]'']"

text \<open>
  \<^verbatim>\<open>process_world_bank_data\<close>, from the frame that \<^verbatim>\<open>pd.read_csv\<close> has parsed.
  The result is the pair (wide table, transposed table), or the exception raised.
\<close>

definition process_world_bank_data :: "frame \<Rightarrow> error + frame \<times> frame" where
  "process_world_bank_data population_data =
     (let world_bank_data = iloc_drop_last 5 population_data in
      case drop_columns dropped_columns world_bank_data of Inl e \<Rightarrow> Inl e
      | Inr world_bank_data \<Rightarrow>
      case map_err first_piece (columns world_bank_data) of Inl e \<Rightarrow> Inl e
      | Inr cols \<Rightarrow>
      case set_columns cols world_bank_data of Inl e \<Rightarrow> Inl e
      | Inr world_bank_data \<Rightarrow>
      let transpose = transpose_frame world_bank_data in
      case iloc_row0 transpose of Inl e \<Rightarrow> Inl e
      | Inr row0 \<Rightarrow>
      case set_columns row0 transpose of Inl e \<Rightarrow> Inl e
      | Inr transpose \<Rightarrow>
      let transpose = iloc_from 1 transpose;
          transpose = bool_filter (map label_isnumeric (index transpose)) transpose in
      case map_err to_numeric (index transpose) of Inl e \<Rightarrow> Inl e
      | Inr idx \<Rightarrow>
      let transpose = transpose\<lparr>index := idx\<rparr>;
          transpose = set_item (CStr ''Years'') (index transpose) transpose
      in Inr (world_bank_data, transpose))"

section \<open>Chart builders\<close>

text \<open>The position of the first column bearing a label.\<close>

fun col_pos :: "cell \<Rightarrow> cell list \<Rightarrow> nat option" where
  "col_pos l [] = None"
| "col_pos l (c # cs) = (if c = l then Some 0 else map_option Suc (col_pos l cs))"

text \<open>
  \<^verbatim>\<open>df[label]\<close>: the values of the column; KeyError when there is no such column.
  With several columns of that label pandas returns a frame instead; the builders are
  modelled for tables with distinct column labels.
\<close>

definition get_item :: "cell \<Rightarrow> frame \<Rightarrow> error + cell list" where
  "get_item l f =
     (case col_pos l (columns f) of None \<Rightarrow> Inl KeyError
      | Some j \<Rightarrow> Inr (map (\<lambda>r. r ! j) (rows f)))"

text \<open>\<^verbatim>\<open>df[df[label] == text]\<close>\<close>

definition filter_eq :: "cell \<Rightarrow> string \<Rightarrow> frame \<Rightarrow> error + frame" where
  "filter_eq l s f =
     (case get_item l f of Inl e \<Rightarrow> Inl e
      | Inr col \<Rightarrow> Inr (bool_filter (map (\<lambda>c. c = CStr s) col) f))"

text \<open>
  \<^verbatim>\<open>pd.melt(df, id_vars=[idv], value_vars=vvs, var_name=.., value_name=..)\<close>:
  ValueError when the value name is a column already, KeyError when a named column is
  absent; one block of rows per value variable, in the order given, each block in the
  order of the rows of the frame; a fresh index 0, 1, 2, ...
\<close>

definition melt :: "cell \<Rightarrow> cell list \<Rightarrow> cell \<Rightarrow> cell \<Rightarrow> frame \<Rightarrow> error + frame" where
  "melt idv vvs var_name value_name f =
     (if value_name \<in> set (columns f) then Inl ValueError
      else case col_pos idv (columns f) of None \<Rightarrow> Inl KeyError
      | Some i \<Rightarrow>
      case map_err (\<lambda>v. case col_pos v (columns f) of None \<Rightarrow> Inl KeyError
                         | Some j \<Rightarrow> Inr (v, j)) vvs of Inl e \<Rightarrow> Inl e
      | Inr vjs \<Rightarrow>
      let rs = concat (map (\<lambda>(v, j). map (\<lambda>r. [r ! i, v, r ! j]) (rows f)) vjs)
      in Inr \<lparr>index = range_index (length rs), columns = [idv, var_name, value_name],
              rows = rs\<rparr>)"

text \<open>
  \<^verbatim>\<open>astype(float)\<close> on one cell. Python's \<^verbatim>\<open>float\<close> on a text is the parameter
  \<open>pf\<close>: \<open>None\<close> where it raises ValueError.
\<close>

fun to_float :: "(string \<Rightarrow> real option) \<Rightarrow> cell \<Rightarrow> error + cell" where
  "to_float pf CNaN = Inr CNaN"
| "to_float pf (CStr s) = (case pf s of None \<Rightarrow> Inl ValueError | Some x \<Rightarrow> Inr (CFloat x))"
| "to_float pf (CFloat x) = Inr (CFloat x)"
| "to_float pf (CInt i) = Inr (CFloat (of_int i))"

text \<open>
  \<^verbatim>\<open>astype(int)\<close> on one cell: a text of digits is its integer, a missing value
  cannot be converted, a float is truncated towards zero. Signs, blanks and underscores
  in a text are not modelled: the script converts the labels "2015" to "2019" only.
\<close>

fun to_int :: "cell \<Rightarrow> error + cell" where
  "to_int CNaN = Inl ValueError"
| "to_int (CStr s) = (if isnumeric s then Inr (CInt (int (digits_to_nat s))) else Inl ValueError)"
| "to_int (CFloat x) = Inr (CInt (if 0 \<le> x then \<lfloor>x\<rfloor> else \<lceil>x\<rceil>))"
| "to_int (CInt i) = Inr (CInt i)"

text \<open>\<^verbatim>\<open>df[label] = df[label].astype(..)\<close>\<close>

definition astype_column :: "(cell \<Rightarrow> error + cell) \<Rightarrow> cell \<Rightarrow> frame \<Rightarrow> error + frame" where
  "astype_column conv l f =
     (case get_item l f of Inl e \<Rightarrow> Inl e
      | Inr col \<Rightarrow>
      case map_err conv col of Inl e \<Rightarrow> Inl e
      | Inr vs \<Rightarrow> Inr (set_item l vs f))"

text \<open>\<^verbatim>\<open>df.dropna(subset=[label])\<close>\<close>

definition dropna :: "cell \<Rightarrow> frame \<Rightarrow> error + frame" where
  "dropna l f =
     (case get_item l f of Inl e \<Rightarrow> Inl e
      | Inr col \<Rightarrow> Inr (bool_filter (map (\<lambda>c. c \<noteq> CNaN) col) f))"

fun is_number :: "cell \<Rightarrow> bool" where
  "is_number (CFloat x) = True"
| "is_number (CInt i) = True"
| "is_number c = False"

fun number_of :: "cell \<Rightarrow> real" where
  "number_of (CFloat x) = x"
| "number_of (CInt i) = of_int i"
| "number_of c = 0"

text \<open>
  \<^verbatim>\<open>df.sort_values(by=label, ascending=False)\<close> on a numeric column: the rows with
  a number, largest first, then the rows without one. The order among equal values is
  the one of an insertion sort here; pandas does not fix it.
\<close>

definition sort_values_desc :: "cell \<Rightarrow> frame \<Rightarrow> error + frame" where
  "sort_values_desc l f =
     (case col_pos l (columns f) of None \<Rightarrow> Inl KeyError
      | Some j \<Rightarrow>
      let labelled = zip (index f) (rows f);
          numbers = filter (\<lambda>(i, r). is_number (r ! j)) labelled;
          others = filter (\<lambda>(i, r). \<not> is_number (r ! j)) labelled;
          ordered = sort_key (\<lambda>(i, r). - number_of (r ! j)) numbers @ others
      in Inr (f\<lparr>index := map fst ordered, rows := map snd ordered\<rparr>))"

text \<open>\<^verbatim>\<open>df.head(n)\<close>\<close>

definition head :: "nat \<Rightarrow> frame \<Rightarrow> frame" where
  "head n f = f\<lparr>index := take n (index f), rows := take n (rows f)\<rparr>"

subsection \<open>Frames as objects\<close>

text \<open>
  The builders receive the wide table by reference and bind new frames to local names;
  two statements assign into a frame in place. The store is the list of the frames that
  exist, a reference is a position in it. A statement either allocates the result of an
  operation as a new frame, or overwrites the frame a reference points to.
\<close>

type_synonym heap = "frame list"

type_synonym 'a prog = "heap \<Rightarrow> heap \<times> (error + 'a)"

definition bind :: "'a prog \<Rightarrow> ('a \<Rightarrow> 'b prog) \<Rightarrow> 'b prog" where
  "bind m k h = (case m h of (h', Inl e) \<Rightarrow> (h', Inl e) | (h', Inr x) \<Rightarrow> k x h')"

definition new_from :: "nat \<Rightarrow> (frame \<Rightarrow> error + frame) \<Rightarrow> nat prog" where
  "new_from r opn h =
     (case opn (h ! r) of Inl e \<Rightarrow> (h, Inl e) | Inr f \<Rightarrow> (h @ [f], Inr (length h)))"

definition update_at :: "nat \<Rightarrow> (frame \<Rightarrow> error + frame) \<Rightarrow> unit prog" where
  "update_at r opn h =
     (case opn (h ! r) of Inl e \<Rightarrow> (h, Inl e) | Inr f \<Rightarrow> (h[r := f], Inr ()))"

definition read_at :: "nat \<Rightarrow> frame prog" where
  "read_at r h = (h, Inr (h ! r))"

definition year_columns :: "cell list" where
  "year_columns = map CStr [''2015'', ''2016'', ''2017'', ''2018'', ''2019'']"

text \<open>
  Each builder is modelled up to the frame it hands to the drawing call
  (\<^verbatim>\<open>sns.barplot\<close>, \<^verbatim>\<open>sns.lineplot\<close>, \<^verbatim>\<open>ax.pie\<close>, \<^verbatim>\<open>sns.histplot\<close>); the drawing
  and the cosmetic calls on the axes read that frame and are not modelled.
\<close>

definition barplot_urban_growth_data :: "(string \<Rightarrow> real option) \<Rightarrow> nat \<Rightarrow> frame prog" where
  "barplot_urban_growth_data pf world_bank_data =
     bind (new_from world_bank_data
             (filter_eq (CStr ''Series'') ''Urban population growth (annual %)''))
       (\<lambda>urban_growth_data.
     bind (new_from urban_growth_data
             (melt (CStr ''Country'') year_columns (CStr ''Year'')
                (CStr ''Urban Population Growth (Annual %)'')))
       (\<lambda>urban_growth_data_melted.
     bind (update_at urban_growth_data_melted
             (astype_column (to_float pf) (CStr ''Urban Population Growth (Annual %)'')))
       (\<lambda>_.
     bind (update_at urban_growth_data_melted (astype_column to_int (CStr ''Year'')))
       (\<lambda>_.
     read_at urban_growth_data_melted))))"

definition lineplot_urban_growth_data :: "(string \<Rightarrow> real option) \<Rightarrow> nat \<Rightarrow> frame prog" where
  "lineplot_urban_growth_data pf world_bank_data =
     bind (new_from world_bank_data
             (filter_eq (CStr ''Series'') ''Urban population growth (annual %)''))
       (\<lambda>urban_growth_data.
     bind (new_from urban_growth_data
             (melt (CStr ''Country'') year_columns (CStr ''Year'')
                (CStr ''Urban Population Growth (Annual %)'')))
       (\<lambda>urban_growth_data_melted.
     bind (update_at urban_growth_data_melted
             (astype_column (to_float pf) (CStr ''Urban Population Growth (Annual %)'')))
       (\<lambda>_.
     bind (update_at urban_growth_data_melted (astype_column to_int (CStr ''Year'')))
       (\<lambda>_.
     read_at urban_growth_data_melted))))"

definition pie_chart_largest_city_population :: "(string \<Rightarrow> real option) \<Rightarrow> nat \<Rightarrow> frame prog" where
  "pie_chart_largest_city_population pf world_bank_data =
     (let year = CStr ''2019'' in
      bind (new_from world_bank_data
              (filter_eq (CStr ''Series'')
                 ''Population in the largest city (% of urban population)''))
        (\<lambda>largest_city_data.
      bind (new_from largest_city_data (dropna year))
        (\<lambda>largest_city_data.
      bind (update_at largest_city_data (astype_column (to_float pf) year))
        (\<lambda>_.
      bind (new_from largest_city_data (sort_values_desc year))
        (\<lambda>largest_city_data.
      bind (new_from largest_city_data (\<lambda>f. Inr (head 6 f)))
        (\<lambda>top_countries.
      read_at top_countries))))))"

definition histogram_rural_population :: "(string \<Rightarrow> real option) \<Rightarrow> nat \<Rightarrow> frame prog" where
  "histogram_rural_population pf world_bank_data =
     bind (new_from world_bank_data (filter_eq (CStr ''Series'') ''Rural population''))
       (\<lambda>rural_population_data.
     bind (new_from rural_population_data
             (melt (CStr ''Country'') year_columns (CStr ''Year'') (CStr ''Rural Population'')))
       (\<lambda>rural_population_data_melted.
     bind (update_at rural_population_data_melted
             (astype_column (to_float pf) (CStr ''Rural Population'')))
       (\<lambda>_.
     bind (update_at rural_population_data_melted (astype_column to_int (CStr ''Year'')))
       (\<lambda>_.
     read_at rural_population_data_melted))))"


section \<open>The script\<close>

text \<open>
  The top level of the file, from the parsed CSV on: the loader, the four builders on
  the same wide table, then \<^verbatim>\<open>plt.savefig("22077669.png")\<close>. An exception ends the
  script where it is raised. The drawing and cosmetic calls that end each builder are
  the parameter \<open>draw\<close>: \<open>draw k f\<close> is the exception the calls of builder \<open>k\<close> raise
  on the prepared frame \<open>f\<close>, or \<open>None\<close> when they return. The result of the script
  is the exception, if any, and the files written.
\<close>

definition drawing :: "(frame \<Rightarrow> error option) \<Rightarrow> frame \<Rightarrow> unit prog" where
  "drawing d f h = (case d f of None \<Rightarrow> (h, Inr ()) | Some e \<Rightarrow> (h, Inl e))"

definition script ::
  "(string \<Rightarrow> real option) \<Rightarrow> (nat \<Rightarrow> frame \<Rightarrow> error option) \<Rightarrow> frame
     \<Rightarrow> error option \<times> string list" where
  "script pf draw population_data =
     (case process_world_bank_data population_data of Inl e \<Rightarrow> (Some e, [])
      | Inr (world_bank_data, _) \<Rightarrow>
      case bind (barplot_urban_growth_data pf 0) (\<lambda>f. bind (drawing (draw 0) f) (\<lambda>_.
           bind (lineplot_urban_growth_data pf 0) (\<lambda>f. bind (drawing (draw 1) f) (\<lambda>_.
           bind (pie_chart_largest_city_population pf 0) (\<lambda>f. bind (drawing (draw 2) f) (\<lambda>_.
           bind (histogram_rural_population pf 0) (\<lambda>f. drawing (draw 3) f)))))))
             [world_bank_data]
      of (_, Inl e) \<Rightarrow> (Some e, [])
       | (_, Inr _) \<Rightarrow> (None, [''22077669.png'']))"

text \<open>Drawing calls that all return, for concrete runs.\<close>

definition draw_returns :: "nat \<Rightarrow> frame \<Rightarrow> error option" where
  "draw_returns k f = None"

text \<open>
  A parser for the plain decimal literals among the texts Python's \<^verbatim>\<open>float\<close>
  accepts (sign, digits, fraction), for concrete tables.
\<close>

definition dec_float :: "string \<Rightarrow> real option" where
  "dec_float s =
     (let neg = (case s of [] \<Rightarrow> False | c # _ \<Rightarrow> c = CHR ''-'');
          t = (if neg then tl s else s);
          ip = takeWhile is_digit t;
          rest = dropWhile is_digit t;
          sg = (if neg then - 1 else 1)
      in case rest of
           [] \<Rightarrow> if ip = [] then None else Some (sg * real (digits_to_nat ip))
         | c # fp \<Rightarrow>
             if c = CHR ''.'' \<and> list_all is_digit fp \<and> (ip \<noteq> [] \<or> fp \<noteq> [])
             then Some (sg * (real (digits_to_nat ip) + real (digits_to_nat fp) / 10 ^ length fp))
             else None)"

section \<open>Auxiliary notions for the statements\<close>


text \<open>
  The first whitespace-delimited token of a text, as the specification words it
  (Python's \<^verbatim>\<open>s.split()[0]\<close>): leading whitespace is skipped, the token ends at the next
  whitespace character.
\<close>

definition is_space :: "char \<Rightarrow> bool" where
  "is_space c \<longleftrightarrow> c \<in> set [CHR '' '', CHR 0x09, CHR 0x0A, CHR 0x0B, CHR 0x0C, CHR 0x0D,
                            CHR 0x1C, CHR 0x1D, CHR 0x1E, CHR 0x1F]"

definition first_token :: "string \<Rightarrow> string" where
  "first_token s = takeWhile (\<lambda>c. \<not> is_space c) (dropWhile is_space s)"

text \<open>The header of a year column in the raw table: \<^verbatim>\<open>YYYY [YRYYYY]\<close>.\<close>

definition year_header :: "string \<Rightarrow> bool" where
  "year_header s \<longleftrightarrow>
     (let y = takeWhile is_digit s in y \<noteq> [] \<and> s = y @ '' [YR'' @ y @ '']'')"

text \<open>The columns of the raw table that the loader retains, in order.\<close>

definition retained :: "frame \<Rightarrow> cell list" where
  "retained t = filter (\<lambda>c. c \<notin> set dropped_columns) (columns t)"


text \<open>
  The purely numeric labels that \<^verbatim>\<open>pd.to_numeric\<close> meets fit 64 bits: the labels of
  the wide table after its first column, which becomes the header of the transposed
  table.
\<close>

fun label_fits :: "cell \<Rightarrow> bool" where
  "label_fits (CStr s) = (if isnumeric s then int (digits_to_nat s) < 2 ^ 64 else True)"
| "label_fits c = True"




definition largest_city_series :: string where
  "largest_city_series = ''Population in the largest city (% of urban population)''"








text \<open>
  A statement sequence keeps the frames below address \<open>n\<close>: run in a store with at
  least \<open>n\<close> frames, it leaves each of them as it was, and a value it returns
  satisfies \<open>Q\<close>.
\<close>

definition keeps :: "nat \<Rightarrow> 'a prog \<Rightarrow> ('a \<Rightarrow> bool) \<Rightarrow> bool" where
  "keeps n m Q \<longleftrightarrow>
     (\<forall>h. n \<le> length h \<longrightarrow>
        (case m h of (h', res) \<Rightarrow>
           n \<le> length h' \<and> take n h' = take n h \<and> (\<forall>x. res = Inr x \<longrightarrow> Q x)))"

section \<open>Concrete tables\<close>

definition raw_header :: "cell list" where
  "raw_header = map CStr
     [''Country Name'', ''Country Code'', ''Series Name'', ''Series Code'',
      ''2001 [YR2001]'', ''2002 [YR2002]'', ''2003 [YR2003]'', ''2004 [YR2004]'',
      ''2005 [YR2005]'', ''2006 [YR2006]'', ''2007 [YR2007]'', ''2008 [YR2008]'',
      ''2009 [YR2009]'', ''2010 [YR2010]'', ''2011 [YR2011]'', ''2012 [YR2012]'',
      ''2015 [YR2015]'', ''2016 [YR2016]'', ''2017 [YR2017]'', ''2018 [YR2018]'',
      ''2019 [YR2019]'']"

definition raw_row :: "string \<Rightarrow> string \<Rightarrow> cell list \<Rightarrow> cell list" where
  "raw_row country series vs =
     [CStr country, CStr ''XXX'', CStr series, CStr ''SP.X''] @ replicate 12 CNaN @ vs"

definition footer_row :: "cell list" where
  "footer_row = replicate 21 CNaN"

text \<open>Two countries, the five years, five footer rows.\<close>

definition raw_example :: frame where
  "raw_example =
     \<lparr>index = range_index 7, columns = raw_header,
      rows = [raw_row ''Chile'' ''Rural population'' (map CInt [5, 4, 3, 2, 1]),
              raw_row ''Ghana'' ''Rural population'' (map CInt [9, 8, 7, 6, 5]),
              footer_row, footer_row, footer_row, footer_row, footer_row]\<rparr>"



text \<open>The example without its column \<^verbatim>\<open>Series Code\<close>.\<close>

definition raw_missing :: frame where
  "raw_missing =
     \<lparr>index = range_index 7,
      columns = filter (\<lambda>c. c \<noteq> CStr ''Series Code'') raw_header,
      rows = replicate 7 (replicate 20 CNaN)\<rparr>"

text \<open>What the loader returns on \<open>raw_example\<close>.\<close>

definition wide_small :: frame where
  "wide_small =
     \<lparr>index = [CInt 0, CInt 1],
      columns = map CStr [''Country'', ''Series'', ''2015'', ''2016'', ''2017'', ''2018'', ''2019''],
      rows = [[CStr ''Chile'', CStr ''Rural population'', CInt 5, CInt 4, CInt 3, CInt 2, CInt 1],
              [CStr ''Ghana'', CStr ''Rural population'', CInt 9, CInt 8, CInt 7, CInt 6, CInt 5]]\<rparr>"

definition transposed_small :: frame where
  "transposed_small =
     \<lparr>index = map CInt [2015, 2016, 2017, 2018, 2019],
      columns = map CStr [''Chile'', ''Ghana'', ''Years''],
      rows = [[CInt 5, CInt 9, CInt 2015], [CInt 4, CInt 8, CInt 2016],
              [CInt 3, CInt 7, CInt 2017], [CInt 2, CInt 6, CInt 2018],
              [CInt 1, CInt 5, CInt 2019]]\<rparr>"



text \<open>A wide table: eight countries of the largest-city series, one row of another series.\<close>

definition wide_header :: "cell list" where
  "wide_header = map CStr [''Country'', ''Series'', ''2015'', ''2016'', ''2017'', ''2018'', ''2019'']"

definition wide_row :: "string \<Rightarrow> string \<Rightarrow> cell \<Rightarrow> cell list" where
  "wide_row country series v = [CStr country, CStr series, CInt 1, CInt 1, CInt 1, CInt 1, v]"

definition wide_cities :: frame where
  "wide_cities =
     \<lparr>index = range_index 9, columns = wide_header,
      rows = [wide_row ''Chile'' largest_city_series (CFloat 30),
              wide_row ''Ghana'' largest_city_series (CFloat 10),
              wide_row ''Peru'' largest_city_series (CFloat 50),
              wide_row ''Chile'' ''Rural population'' (CFloat 7),
              wide_row ''Kenya'' largest_city_series (CFloat 20),
              wide_row ''Nepal'' largest_city_series (CFloat 40),
              wide_row ''Oman'' largest_city_series (CFloat 60),
              wide_row ''Fiji'' largest_city_series (CFloat 5),
              wide_row ''Cuba'' largest_city_series CNaN]\<rparr>"

text \<open>Its rows of the largest-city series.\<close>

definition cities_only :: frame where
  "cities_only =
     \<lparr>index = map CInt [0, 1, 2, 4, 5, 6, 7, 8], columns = wide_header,
      rows = [wide_row ''Chile'' largest_city_series (CFloat 30),
              wide_row ''Ghana'' largest_city_series (CFloat 10),
              wide_row ''Peru'' largest_city_series (CFloat 50),
              wide_row ''Kenya'' largest_city_series (CFloat 20),
              wide_row ''Nepal'' largest_city_series (CFloat 40),
              wide_row ''Oman'' largest_city_series (CFloat 60),
              wide_row ''Fiji'' largest_city_series (CFloat 5),
              wide_row ''Cuba'' largest_city_series CNaN]\<rparr>"




section \<open>Lists, masks and fallible maps\<close>

lemma select_Nil [simp]: "select [] xs = []" "select bs [] = []"
  by (simp_all add: select_def)

lemma select_Cons [simp]:
  "select (b # bs) (x # xs) = (if b then x # select bs xs else select bs xs)"
  by (simp add: select_def)

lemma select_map_filter: "select (map P xs) xs = filter P xs"
  by (induction xs) simp_all


lemma length_select_le: "length (select bs xs) \<le> length (filter id bs)"
proof (induction bs arbitrary: xs)
  case Nil
  then show ?case by simp
next
  case (Cons b bs)
  show ?case
  proof (cases xs)
    case Nil
    then show ?thesis by simp
  next
    case (Cons y ys)
    with Cons.IH [of ys] show ?thesis by simp
  qed
qed


lemma map_err_Inr:
  "map_err g xs = Inr ys \<Longrightarrow> list_all2 (\<lambda>x y. g x = Inr y) xs ys"
  by (induction xs arbitrary: ys) (auto split: sum.splits)

lemma split_on_takeWhile:
  "\<exists>ps. split_on c s = takeWhile (\<lambda>x. x \<noteq> c) s # ps"
  by (induction s) auto

lemma first_piece_CStr:
  "first_piece (CStr s) = Inr (CStr (takeWhile (\<lambda>x. x \<noteq> CHR '' '') s))"
  using split_on_takeWhile [of "CHR '' ''" s] by auto

lemma first_piece_Inr:
  "first_piece c = Inr d \<Longrightarrow> \<exists>s. c = CStr s \<and> d = CStr (takeWhile (\<lambda>x. x \<noteq> CHR '' '') s)"
  by (cases c) (simp_all add: first_piece_CStr del: first_piece.simps(1))




section \<open>The loader: what a successful run has done\<close>

lemma drop_columns_Inr:
  "drop_columns ds f = Inr g \<Longrightarrow>
     set ds \<subseteq> set (columns f) \<and> index g = index f \<and>
     columns g = filter (\<lambda>c. c \<notin> set ds) (columns f) \<and>
     rows g = map (select (map (\<lambda>c. c \<notin> set ds) (columns f))) (rows f)"
  by (auto simp: drop_columns_def list_ex_iff select_map_filter split: if_splits)


lemma drop_columns_KeyError:
  "\<not> set ds \<subseteq> set (columns f) \<Longrightarrow> drop_columns ds f = Inl KeyError"
  by (auto simp: drop_columns_def list_ex_iff)

lemma process_wide:
  assumes "process_world_bank_data t = Inr (w, tr)"
  shows "set dropped_columns \<subseteq> set (columns t)"
    and "index w = take (length (index t) - 5) (index t)"
    and "rows w = map (select (map (\<lambda>c. c \<notin> set dropped_columns) (columns t)))
                    (take (length (rows t) - 5) (rows t))"
    and "list_all2 (\<lambda>c d. first_piece c = Inr d)
           (filter (\<lambda>c. c \<notin> set dropped_columns) (columns t)) (columns w)"
proof -
  from assms obtain g cols where
    g: "drop_columns dropped_columns (iloc_drop_last 5 t) = Inr g" and
    cols: "map_err first_piece (columns g) = Inr cols" and
    w: "set_columns cols g = Inr w"
    by (auto simp: process_world_bank_data_def Let_def split: sum.splits)
  note d = drop_columns_Inr [OF g]
  from w have w': "w = g\<lparr>columns := cols\<rparr>"
    by (auto simp: set_columns_def split: if_splits)
  show "set dropped_columns \<subseteq> set (columns t)"
    using d by (simp add: iloc_drop_last_def)
  show "index w = take (length (index t) - 5) (index t)"
    using d w' by (simp add: iloc_drop_last_def)
  show "rows w = map (select (map (\<lambda>c. c \<notin> set dropped_columns) (columns t)))
                    (take (length (rows t) - 5) (rows t))"
    using d w' by (simp add: iloc_drop_last_def)
  show "list_all2 (\<lambda>c d. first_piece c = Inr d)
           (filter (\<lambda>c. c \<notin> set dropped_columns) (columns t)) (columns w)"
    using d w' map_err_Inr [OF cols] by (simp add: iloc_drop_last_def)
qed

lemma process_transposed:
  assumes "process_world_bank_data t = Inr (w, tr)"
  shows "\<exists>row0 t1 idx.
           iloc_row0 (transpose_frame w) = Inr row0 \<and>
           set_columns row0 (transpose_frame w) = Inr t1 \<and>
           map_err to_numeric
             (index (bool_filter (map label_isnumeric (index (iloc_from 1 t1))) (iloc_from 1 t1)))
             = Inr idx \<and>
           tr = set_item (CStr ''Years'') idx
                  ((bool_filter (map label_isnumeric (index (iloc_from 1 t1))) (iloc_from 1 t1))
                     \<lparr>index := idx\<rparr>)"
  using assms
  by (auto simp: process_world_bank_data_def Let_def split: sum.splits)





section \<open>Column assignment and year headers\<close>





lemma digit_not_space: "is_digit c \<Longrightarrow> c \<noteq> CHR '' '' \<and> \<not> is_space c"
  by (auto simp: is_digit_def is_space_def)

lemma year_header_token:
  assumes "year_header s"
  shows "takeWhile (\<lambda>x. x \<noteq> CHR '' '') s = first_token s"
proof -
  define y where "y = takeWhile is_digit s"
  from assms have y: "y \<noteq> []" and s: "s = y @ '' [YR'' @ y @ '']''"
    by (simp_all add: year_header_def y_def Let_def)
  have dig: "\<And>c. c \<in> set y \<Longrightarrow> is_digit c"
    unfolding y_def by (rule set_takeWhileD [THEN conjunct2])
  have 1: "takeWhile (\<lambda>x. x \<noteq> CHR '' '') s = y"
    by (subst s, subst takeWhile_append2) (auto dest: dig digit_not_space)
  obtain c cs where ycs: "y = c # cs" using y by (cases y) auto
  then have "\<not> is_space c" using dig digit_not_space by auto
  then have "dropWhile is_space s = s"
    by (subst (1 2) s) (simp add: ycs)
  moreover have "takeWhile (\<lambda>c. \<not> is_space c) s = y"
  proof (subst s, subst takeWhile_append2)
    fix x assume "x \<in> set y"
    then show "\<not> is_space x" using dig digit_not_space by blast
  next
    show "y @ takeWhile (\<lambda>c. \<not> is_space c) ('' [YR'' @ y @ '']'') = y"
      by (simp add: is_space_def)
  qed
  ultimately show ?thesis using 1 by (simp add: first_token_def)
qed

section \<open>Properties of the loader\<close>


lemma map_err_Inr_each:
  "map_err g xs = Inr ys \<Longrightarrow> x \<in> set xs \<Longrightarrow> \<exists>y. g x = Inr y"
  by (induction xs arbitrary: ys) (auto split: sum.splits)

text \<open>
  The bound on the numeric labels is necessary: whenever the loader returns, every
  purely numeric label of the wide table after its first column fits 64 bits. A label
  of twenty digits does not.
\<close>

lemma loader_returns_only_if_labels_fit:
  assumes "process_world_bank_data t = Inr (w, tr)"
  shows "list_all label_fits (tl (columns w))"
proof -
  let ?T = "transpose_frame w"
  from process_transposed [OF assms] obtain row0 t1 idx where
    t1: "set_columns row0 ?T = Inr t1" and
    idx: "map_err to_numeric
            (index (bool_filter (map label_isnumeric (index (iloc_from 1 t1))) (iloc_from 1 t1)))
          = Inr idx"
    by blast
  from t1 have "t1 = ?T\<lparr>columns := row0\<rparr>"
    by (auto simp: set_columns_def split: if_splits)
  then have "index (iloc_from 1 t1) = tl (columns w)"
    by (simp add: iloc_from_def transpose_frame_def drop_Suc)
  then have run: "map_err to_numeric (filter label_isnumeric (tl (columns w))) = Inr idx"
    using idx by (simp add: bool_filter_def select_map_filter)
  have "label_fits c" if "c \<in> set (tl (columns w))" for c
  proof (cases "label_isnumeric c")
    case True
    with that have "c \<in> set (filter label_isnumeric (tl (columns w)))" by simp
    from map_err_Inr_each [OF run this] obtain y where "to_numeric c = Inr y" ..
    with True show ?thesis by (cases c) (auto split: if_splits)
  next
    case False
    then show ?thesis by (cases c) simp_all
  qed
  then show ?thesis by (simp add: list_all_iff)
qed

lemma twenty_digits_do_not_fit:
  "to_numeric (CStr ''99999999999999999999'') = Inl ValueError"
  by (simp add: isnumeric_def is_digit_def digits_to_nat_def digit_val_def)







text \<open>
  Claim C4. The columns of the wide table are the retained columns of the raw table, in
  order, and every retained column whose raw header is a year header
  \<^verbatim>\<open>YYYY [YRYYYY]\<close> bears the first whitespace-delimited token of that header.
\<close>

theorem year_headers_renamed:
  assumes "process_world_bank_data t = Inr (w, tr)"
  shows "length (columns w) = length (retained t) \<and>
         (\<forall>j<length (columns w). \<forall>s. retained t ! j = CStr s \<and> year_header s \<longrightarrow>
              columns w ! j = CStr (first_token s))"
proof -
  note w = process_wide(4) [OF assms, folded retained_def]
  have len: "length (columns w) = length (retained t)"
    using w by (simp add: list_all2_lengthD)
  moreover have "columns w ! j = CStr (first_token s)"
    if "j < length (columns w)" "retained t ! j = CStr s" "year_header s" for j s
  proof -
    have "first_piece (retained t ! j) = Inr (columns w ! j)"
      using list_all2_nthD [OF w, of j] that(1) len by simp
    then have "columns w ! j = CStr (takeWhile (\<lambda>x. x \<noteq> CHR '' '') s)"
      using that(2) by (simp add: first_piece_CStr del: first_piece.simps(1))
    then show ?thesis using year_header_token [OF that(3)] by simp
  qed
  ultimately show ?thesis by blast
qed

text \<open>The statement at \<open>raw_example\<close>, column 2: \<^verbatim>\<open>2015 [YR2015]\<close> has become \<^verbatim>\<open>2015\<close>.\<close>

theorem year_headers_renamed_witness:
  "process_world_bank_data raw_example = Inr (wide_small, transposed_small) \<and>
   2 < length (columns wide_small) \<and>
   retained raw_example ! 2 = CStr ''2015 [YR2015]'' \<and> year_header ''2015 [YR2015]'' \<and>
   columns wide_small ! 2 = CStr (first_token ''2015 [YR2015]'')"
proof -
  have run: "process_world_bank_data raw_example = Inr (wide_small, transposed_small)"
    by code_simp
  have l: "2 < length (columns wide_small)" by code_simp
  have r: "retained raw_example ! 2 = CStr ''2015 [YR2015]''" by code_simp
  have y: "year_header ''2015 [YR2015]''" by code_simp
  from year_headers_renamed [OF run] l r y
  have "columns wide_small ! 2 = CStr (first_token ''2015 [YR2015]'')"
    by blast
  with run l r y show ?thesis by blast
qed





text \<open>
  Claim C7. When one of the 14 columns to remove is absent from the parsed table, the
  column drop raises KeyError, \<open>process_world_bank_data\<close> ends with it, and the script
  ends with it before any builder runs: nothing is written, the image
  \<^verbatim>\<open>22077669.png\<close> in particular.
\<close>

theorem missing_column_fails:
  assumes "\<exists>c\<in>set dropped_columns. c \<notin> set (columns t)"
  shows "drop_columns dropped_columns (iloc_drop_last 5 t) = Inl KeyError \<and>
         process_world_bank_data t = Inl KeyError \<and>
         script pf draw t = (Some KeyError, [])"
proof -
  have "\<not> set dropped_columns \<subseteq> set (columns (iloc_drop_last 5 t))"
    using assms by (auto simp: iloc_drop_last_def)
  then have d: "drop_columns dropped_columns (iloc_drop_last 5 t) = Inl KeyError"
    by (rule drop_columns_KeyError)
  then have p: "process_world_bank_data t = Inl KeyError"
    by (simp add: process_world_bank_data_def)
  then have "script pf draw t = (Some KeyError, [])"
    by (simp add: script_def)
  with d p show ?thesis by blast
qed

text \<open>The statement at \<open>raw_missing\<close>, which lacks \<^verbatim>\<open>Series Code\<close>.\<close>

theorem missing_column_fails_witness:
  "(\<exists>c\<in>set dropped_columns. c \<notin> set (columns raw_missing)) \<and>
   raw_table raw_missing \<and>
   process_world_bank_data raw_missing = Inl KeyError \<and>
   script dec_float draw_returns raw_missing = (Some KeyError, [])"
proof -
  have h: "\<exists>c\<in>set dropped_columns. c \<notin> set (columns raw_missing)" by code_simp
  have r: "raw_table raw_missing" by code_simp
  from missing_column_fails [OF h, of dec_float draw_returns] h r show ?thesis by blast
qed

section \<open>Row filters\<close>

lemma select_all_True: "set bs \<subseteq> {True} \<Longrightarrow> select bs xs = take (length bs) xs"
proof (induction bs arbitrary: xs)
  case Nil
  then show ?case by simp
next
  case (Cons b bs)
  from Cons.prems have b: "b" and rest: "set bs \<subseteq> {True}" by simp_all
  show ?case
  proof (cases xs)
    case Nil
    then show ?thesis by simp
  next
    case (Cons y ys)
    then show ?thesis using b Cons.IH [OF rest, of ys] by simp
  qed
qed

lemma get_item_Inr:
  "get_item l f = Inr col \<Longrightarrow>
     \<exists>j. col_pos l (columns f) = Some j \<and> col = map (\<lambda>r. r ! j) (rows f)"
  by (auto simp: get_item_def split: option.splits)

lemma bool_filter_column:
  "bool_filter (map P (map (\<lambda>r. r ! j) (rows f))) f =
     f\<lparr>index := select (map (\<lambda>r. P (r ! j)) (rows f)) (index f),
       rows := filter (\<lambda>r. P (r ! j)) (rows f)\<rparr>"
  by (simp add: bool_filter_def select_map_filter [symmetric] comp_def)

lemma bool_filter_twice:
  "bool_filter (map P (map (\<lambda>r. r ! j) (rows (bool_filter (map P (map (\<lambda>r. r ! j) (rows f))) f))))
     (bool_filter (map P (map (\<lambda>r. r ! j) (rows f))) f)
   = bool_filter (map P (map (\<lambda>r. r ! j) (rows f))) f"
proof -
  let ?Q = "\<lambda>r. P (r ! j)"
  let ?g = "bool_filter (map P (map (\<lambda>r. r ! j) (rows f))) f"
  have g: "?g = f\<lparr>index := select (map ?Q (rows f)) (index f), rows := filter ?Q (rows f)\<rparr>"
    by (rule bool_filter_column)
  have "length (select (map ?Q (rows f)) (index f)) \<le> length (filter id (map ?Q (rows f)))"
    by (rule length_select_le)
  also have "filter id (map ?Q (rows f)) = map ?Q (filter ?Q (rows f))"
    by (simp add: filter_map comp_def)
  finally have le: "length (select (map ?Q (rows f)) (index f)) \<le> length (filter ?Q (rows f))"
    by simp
  have "select (map ?Q (filter ?Q (rows f))) (select (map ?Q (rows f)) (index f))
          = take (length (map ?Q (filter ?Q (rows f)))) (select (map ?Q (rows f)) (index f))"
    by (rule select_all_True) auto
  also have "\<dots> = select (map ?Q (rows f)) (index f)"
    using le by simp
  finally have idx: "select (map ?Q (filter ?Q (rows f))) (select (map ?Q (rows f)) (index f))
          = select (map ?Q (rows f)) (index f)" .
  have "bool_filter (map P (map (\<lambda>r. r ! j) (rows ?g))) ?g
          = ?g\<lparr>index := select (map ?Q (rows ?g)) (index ?g), rows := filter ?Q (rows ?g)\<rparr>"
    by (rule bool_filter_column)
  also have "\<dots> = ?g"
    by (subst (1 2 3 4 5) g) (simp add: idx)
  finally show ?thesis .
qed

text \<open>
  Claim C8. Filtering the rows of a table by equality of the column \<^verbatim>\<open>Series\<close> with
  a fixed text is idempotent: the filter applied to its own result returns that result,
  row labels included. The text is arbitrary; the literals of the four builders are
  instances.
\<close>

theorem series_filter_idempotent:
  assumes "filter_eq (CStr ''Series'') s w = Inr w'"
  shows "filter_eq (CStr ''Series'') s w' = Inr w'"
proof -
  from assms obtain col where col: "get_item (CStr ''Series'') w = Inr col"
    and w': "w' = bool_filter (map (\<lambda>c. c = CStr s) col) w"
    by (auto simp: filter_eq_def split: sum.splits)
  from get_item_Inr [OF col] obtain j where j: "col_pos (CStr ''Series'') (columns w) = Some j"
    and colj: "col = map (\<lambda>r. r ! j) (rows w)" by blast
  have cols: "columns w' = columns w"
    by (simp add: w' bool_filter_def)
  have "get_item (CStr ''Series'') w' = Inr (map (\<lambda>r. r ! j) (rows w'))"
    by (simp add: get_item_def cols j)
  then have "filter_eq (CStr ''Series'') s w' =
      Inr (bool_filter (map (\<lambda>c. c = CStr s) (map (\<lambda>r. r ! j) (rows w'))) w')"
    by (simp add: filter_eq_def)
  also have "bool_filter (map (\<lambda>c. c = CStr s) (map (\<lambda>r. r ! j) (rows w'))) w' = w'"
    unfolding w' colj by (rule bool_filter_twice)
  finally show ?thesis .
qed

text \<open>The statement at \<open>wide_cities\<close>, where the filter removes a row.\<close>

theorem series_filter_idempotent_witness:
  "filter_eq (CStr ''Series'') largest_city_series wide_cities = Inr cities_only \<and>
   filter_eq (CStr ''Series'') largest_city_series cities_only = Inr cities_only \<and>
   cities_only \<noteq> wide_cities"
proof -
  have h: "filter_eq (CStr ''Series'') largest_city_series wide_cities = Inr cities_only"
    by code_simp
  have n: "cities_only \<noteq> wide_cities" by code_simp
  from series_filter_idempotent [OF h] h n show ?thesis by simp
qed

section \<open>The builders and the store\<close>

lemma keeps_bind:
  assumes m: "keeps n m Q" and k: "\<And>x. Q x \<Longrightarrow> keeps n (k x) Q'"
  shows "keeps n (bind m k) Q'"
  unfolding keeps_def
proof (intro allI impI)
  fix h :: heap assume h: "n \<le> length h"
  obtain h' res where mh: "m h = (h', res)" by (cases "m h")
  from m h mh have 1: "n \<le> length h'" "take n h' = take n h" "\<forall>x. res = Inr x \<longrightarrow> Q x"
    by (auto simp: keeps_def)
  show "case bind m k h of (h'', r) \<Rightarrow>
          n \<le> length h'' \<and> take n h'' = take n h \<and> (\<forall>x. r = Inr x \<longrightarrow> Q' x)"
  proof (cases res)
    case (Inl e)
    then show ?thesis using mh 1 by (simp add: bind_def)
  next
    case (Inr x)
    then have "Q x" using 1 by simp
    from k [OF this] 1(1) have
      "case k x h' of (h'', r) \<Rightarrow>
          n \<le> length h'' \<and> take n h'' = take n h' \<and> (\<forall>x. r = Inr x \<longrightarrow> Q' x)"
      by (simp add: keeps_def)
    then show ?thesis using mh Inr 1(2) by (auto simp: bind_def)
  qed
qed

lemma keeps_new_from: "keeps n (new_from r opn) (\<lambda>x. n \<le> x)"
  by (auto simp: keeps_def new_from_def split: sum.splits)

lemma keeps_update_at: "n \<le> r \<Longrightarrow> keeps n (update_at r opn) (\<lambda>_. True)"
  by (auto simp: keeps_def update_at_def split: sum.splits)

lemma keeps_read_at: "keeps n (read_at r) (\<lambda>_. True)"
  by (simp add: keeps_def read_at_def)

lemma keeps_bind_new:
  "(\<And>x. n \<le> x \<Longrightarrow> keeps n (k x) Q) \<Longrightarrow> keeps n (bind (new_from r opn) k) Q"
  by (rule keeps_bind [OF keeps_new_from])

lemma keeps_bind_update:
  "n \<le> r \<Longrightarrow> (\<And>u. keeps n (k u) Q) \<Longrightarrow> keeps n (bind (update_at r opn) k) Q"
  by (rule keeps_bind [OF keeps_update_at])

lemma keeps_barplot: "keeps n (barplot_urban_growth_data pf r) (\<lambda>_. True)"
  unfolding barplot_urban_growth_data_def
  by (rule keeps_bind_new keeps_bind_update keeps_read_at | assumption)+

lemma keeps_lineplot: "keeps n (lineplot_urban_growth_data pf r) (\<lambda>_. True)"
  unfolding lineplot_urban_growth_data_def
  by (rule keeps_bind_new keeps_bind_update keeps_read_at | assumption)+

lemma keeps_pie: "keeps n (pie_chart_largest_city_population pf r) (\<lambda>_. True)"
  unfolding pie_chart_largest_city_population_def Let_def
  by (rule keeps_bind_new keeps_bind_update keeps_read_at | assumption)+

lemma keeps_histogram: "keeps n (histogram_rural_population pf r) (\<lambda>_. True)"
  unfolding histogram_rural_population_def
  by (rule keeps_bind_new keeps_bind_update keeps_read_at | assumption)+

lemma keeps_nth:
  assumes "keeps (length h) m Q" and "r < length h"
  shows "fst (m h) ! r = h ! r"
proof -
  obtain h' res where mh: "m h = (h', res)" by (cases "m h")
  with assms(1) have "take (length h) h' = take (length h) h"
    by (auto simp: keeps_def)
  then have "take (length h) h' ! r = h ! r" by simp
  then show ?thesis using assms(2) mh by simp
qed

text \<open>
  Claim C9. Each of the four builders, run on a reference to a frame of the store,
  leaves that frame as it was: the frames a builder assigns into are frames it has
  allocated itself.
\<close>

theorem builders_leave_table_unchanged:
  assumes "world_bank_data < length h"
  shows "fst (barplot_urban_growth_data pf world_bank_data h) ! world_bank_data
           = h ! world_bank_data \<and>
         fst (lineplot_urban_growth_data pf world_bank_data h) ! world_bank_data
           = h ! world_bank_data \<and>
         fst (pie_chart_largest_city_population pf world_bank_data h) ! world_bank_data
           = h ! world_bank_data \<and>
         fst (histogram_rural_population pf world_bank_data h) ! world_bank_data
           = h ! world_bank_data"
  using keeps_nth [OF keeps_barplot assms] keeps_nth [OF keeps_lineplot assms]
    keeps_nth [OF keeps_pie assms] keeps_nth [OF keeps_histogram assms]
  by simp

text \<open>
  The statement at a store that holds \<open>wide_cities\<close> only; the pie builder has
  allocated four further frames, and the frame it assigned into differs from the table.
\<close>

theorem builders_leave_table_unchanged_witness:
  "(0::nat) < length [wide_cities] \<and>
   fst (barplot_urban_growth_data dec_float 0 [wide_cities]) ! 0 = wide_cities \<and>
   fst (lineplot_urban_growth_data dec_float 0 [wide_cities]) ! 0 = wide_cities \<and>
   fst (pie_chart_largest_city_population dec_float 0 [wide_cities]) ! 0 = wide_cities \<and>
   fst (histogram_rural_population dec_float 0 [wide_cities]) ! 0 = wide_cities \<and>
   length (fst (pie_chart_largest_city_population dec_float 0 [wide_cities])) = 5 \<and>
   fst (pie_chart_largest_city_population dec_float 0 [wide_cities]) ! 2 \<noteq> wide_cities"
proof -
  have h: "(0::nat) < length [wide_cities]" by simp
  have l: "length (fst (pie_chart_largest_city_population dec_float 0 [wide_cities])) = 5"
    by code_simp
  have n: "fst (pie_chart_largest_city_population dec_float 0 [wide_cities]) ! 2 \<noteq> wide_cities"
    by code_simp
  from builders_leave_table_unchanged [OF h, of dec_float] l n show ?thesis by simp
qed


section \<open>The pie-chart builder\<close>




lemma col_pos_None: "col_pos l cs = None \<Longrightarrow> l \<notin> set cs"
  by (induction cs) (auto split: if_splits)






















end
